theory Spec2Isabelle
  imports Complex_Main
begin

section \<open>The dashboard's performance card (FullPerfCard.tsx)\<close>

text \<open>
  The file holds three React components: \<open>FullPerfChart\<close> (lines 21-103),
  \<open>ChartErrorMessage\<close> (lines 105-131) and \<open>FullPerfCard\<close> (lines 134-207).
  Each is embedded as a function of its props and of the state its hooks keep between
  renders; what a component renders is a value of \<open>vnode\<close>, and what it does (console
  output, the call of the drawing routine, HTTP requests) is a list of events.
\<close>

subsection \<open>Values of the JavaScript runtime\<close>

text \<open>
  A JavaScript \<open>number\<close>: the finite values are read as reals, and \<open>NaN\<close> is kept
  apart because \<open>!NaN\<close> is true. The component only tests numbers for truthiness
  and subtracts the margins from them.
\<close>

datatype number = Num real | NaN

text \<open>\<open>!n\<close> for a number: true for zero and for \<open>NaN\<close>.\<close>

definition falsy_number :: "number \<Rightarrow> bool" where
  "falsy_number n = (case n of NaN \<Rightarrow> True | Num r \<Rightarrow> r = 0)"

fun number_minus :: "number \<Rightarrow> number \<Rightarrow> number" where
  "number_minus (Num a) (Num b) = Num (a - b)"
| "number_minus _ _ = NaN"

text \<open>
  An object of the heap: its identity and its content. \<open>Object.is\<close> on two objects
  compares the identities only. A nullable reference is an \<open>option\<close>; null and
  undefined are one value, \<open>None\<close>.
\<close>

datatype 'a js_object = Object (identity: nat) (content: 'a)

definition Object_is :: "'a js_object option \<Rightarrow> 'a js_object option \<Rightarrow> bool" where
  "Object_is a b =
     (case a of
        None \<Rightarrow> (case b of None \<Rightarrow> True | Some _ \<Rightarrow> False)
      | Some x \<Rightarrow> (case b of None \<Rightarrow> False | Some y \<Rightarrow> identity x = identity y))"

text \<open>\<open>a ?? b\<close>: the right operand when the left one is null or undefined.\<close>

definition nullish_coalesce :: "'a option \<Rightarrow> 'a \<Rightarrow> 'a" where
  "nullish_coalesce a b = (case a of None \<Rightarrow> b | Some v \<Rightarrow> v)"

text \<open>
  \<open>Array.prototype.map\<close> calls its callback with the element, its index and the
  array.
\<close>

fun js_map_from :: "nat \<Rightarrow> ('a \<Rightarrow> nat \<Rightarrow> 'a list \<Rightarrow> 'b) \<Rightarrow> 'a list \<Rightarrow> 'a list \<Rightarrow> 'b list" where
  "js_map_from i f arr [] = []"
| "js_map_from i f arr (x # xs) = f x i arr # js_map_from (Suc i) f arr xs"

definition js_map :: "('a \<Rightarrow> nat \<Rightarrow> 'a list \<Rightarrow> 'b) \<Rightarrow> 'a list \<Rightarrow> 'b list" where
  "js_map f arr = js_map_from 0 f arr arr"

text \<open>
  The names every plain object inherits from \<open>Object.prototype\<close>. A property read
  \<open>obj[key]\<close> on an object literal finds the object's own property first and an
  inherited one otherwise; only a name that is neither gives \<open>undefined\<close>.
\<close>

definition Object_prototype_names :: "string list" where
  "Object_prototype_names =
     [''constructor'', ''__defineGetter__'', ''__defineSetter__'', ''hasOwnProperty'',
      ''__lookupGetter__'', ''__lookupSetter__'', ''isPrototypeOf'',
      ''propertyIsEnumerable'', ''toString'', ''valueOf'', ''__proto__'',
      ''toLocaleString'']"

text \<open>
  A property key from a value that may be undefined: \<open>obj[undefined]\<close> reads the
  property named \<open>undefined\<close>.
\<close>

definition ToPropertyKey :: "string option \<Rightarrow> string" where
  "ToPropertyKey k = (case k of None \<Rightarrow> ''undefined'' | Some s \<Rightarrow> s)"

subsection \<open>What a component renders\<close>

datatype prop_value =
    PStr string
  | PNum number
  | PRef string
  | PStyle "(string \<times> prop_value) list"

text \<open>
  \<open>PrototypeMember name\<close> is the value of \<open>Object.prototype[name]\<close> (a function, or
  \<open>Object.prototype\<close> itself for \<open>__proto__\<close>) where it ends up as a child: React
  does not render it as text.
\<close>

datatype vnode =
    Null
  | Text string
  | PrototypeMember string
  | Element string "(string \<times> prop_value) list" "vnode list"
  | Fragment "vnode list"

text \<open>The text a rendered tree shows (the DOM's \<open>textContent\<close>).\<close>

fun textContent :: "vnode \<Rightarrow> string" where
  "textContent Null = []"
| "textContent (Text s) = s"
| "textContent (PrototypeMember n) = []"
| "textContent (Element t ps cs) = concat (map textContent cs)"
| "textContent (Fragment cs) = concat (map textContent cs)"

subsection \<open>ChartErrorMessage (lines 105-131)\<close>

text \<open>
  The two error classes the component tells apart with \<open>instanceof\<close>. The message
  is optional because the source guards it with \<open>??\<close>.
\<close>

datatype js_error = Error "string option" | BackendApiError "string option"

definition errorMessageMaps :: "(string \<times> vnode) list" where
  "errorMessageMaps =
     [(''bad_request'', Text ''Chart data loading failed: bad request.''),
      (''invalid_thread_name'', Text ''Chart data loading failed: invalid thread name.''),
      (''data_unavailable'', Text ''Chart data loading failed: data not yet available.''),
      (''not_enough_data'',
         Element ''p'' [(''className'', PStr ''text-center'')]
           [Element ''strong'' []
              [Text ''There is not enough data to display the chart just yet.''],
            Element ''br'' [] [],
            Element ''span'' [(''className'', PStr ''text-base italic'')]
              [Text ''The chart requires at least 30 minutes of server runtime data to be available.'']])]"

text \<open>\<open>errorMessageMaps[key]\<close>, with the inherited properties.\<close>

definition get_property :: "(string \<times> vnode) list \<Rightarrow> string \<Rightarrow> vnode option" where
  "get_property own key =
     (case map_of own key of
        Some v \<Rightarrow> Some v
      | None \<Rightarrow> if key \<in> set Object_prototype_names then Some (PrototypeMember key) else None)"

definition ChartErrorMessage :: "js_error \<Rightarrow> vnode" where
  "ChartErrorMessage error =
     (case error of
        BackendApiError message \<Rightarrow>
          Element ''div''
            [(''className'', PStr ''absolute inset-0 flex flex-col items-center justify-center text-2xl text-muted-foreground'')]
            [nullish_coalesce (get_property errorMessageMaps (ToPropertyKey message))
               (Text ''Unknown BackendApiError'')]
      | Error message \<Rightarrow>
          Element ''div''
            [(''className'', PStr ''absolute inset-0 flex flex-col items-center justify-center text-2xl text-destructive-inline'')]
            [Text ''Error: '', Text (nullish_coalesce message ''Unknown Error'')])"

subsection \<open>The data FullPerfChart works on\<close>

text \<open>
  The response of the endpoint (\<open>PerfChartApiSuccessResp\<close>) and a snapshot of its
  log (\<open>SvRtPerfCountsThreadType\<close>) are declared outside this file; they are records
  of the properties the component reads, over the types of a boundary \<open>'b\<close> and of
  a snapshot's counters \<open>'k\<close>.
\<close>

record 'k SvRtPerfCountsThreadType =
  buckets :: 'k

record ('b, 'k) PerfChartApiSuccessResp =
  boundaries :: "'b list"
  threadPerfLog :: "'k SvRtPerfCountsThreadType list"

text \<open>
  What \<open>processPerfLog\<close> returns when it returns an object: the component reads
  \<open>lifespans\<close> and copies every other property (\<open>rest\<close>) with the spread.
\<close>

record ('s, 'x) parsed =
  lifespans :: "'s list"
  rest :: 'x

text \<open>
  The helpers imported from \<open>./chartingUtils\<close> are not part of the file; they are
  parameters of the model. \<open>processPerfLog\<close> may return a falsy value (\<open>None\<close>);
  \<open>formatTickBoundary\<close> formats one boundary.
\<close>

record ('b, 'k, 'e, 'h, 's, 'x) chartingUtils =
  getBucketTicketsEstimatedTime :: "'b list \<Rightarrow> 'e"
  getTimeWeightedHistogram :: "'k \<Rightarrow> 'e \<Rightarrow> 'h"
  processPerfLog ::
    "'k SvRtPerfCountsThreadType list \<Rightarrow> ('k SvRtPerfCountsThreadType \<Rightarrow> 'h) \<Rightarrow> ('s, 'x) parsed option"
  formatTickBoundary :: "'b \<Rightarrow> string"

text \<open>The argument \<open>cursorSetter\<close> hands to \<open>setCursor\<close> for a snapshot \<open>'p\<close>.\<close>

record 'p cursor =
  cursor_threadName :: string
  snap :: 'p

text \<open>
  The shaped view model of lines 44-54: the spread of \<open>parsed\<close>, the labels and the
  cursor callback. \<open>'f\<close> is whatever a call of \<open>setCursor\<close> does.
\<close>

record ('s, 'x, 'p, 'f) viewModel =
  vm_lifespans :: "'s list"
  vm_rest :: 'x
  bucketLabels :: "string list"
  cursorSetter :: "'p option \<Rightarrow> 'f"

record ('b, 'k) FullPerfChartProps =
  threadName :: string
  apiData :: "('b, 'k) PerfChartApiSuccessResp js_object option"
  width :: number
  height :: number
  isDarkMode :: bool

record margins_t =
  margin_top :: number
  margin_right :: number
  margin_bottom :: number
  margin_left :: number
  margin_axis :: number

definition margins :: margins_t where
  "margins = \<lparr>margin_top = Num 0, margin_right = Num 50, margin_bottom = Num 30,
               margin_left = Num 40, margin_axis = Num 1\<rparr>"

subsection \<open>FullPerfChart: the memoized derivation (lines 34-55)\<close>

text \<open>
  The function handed to \<open>useMemo\<close>, with the closure \<open>perfProcessor\<close> of lines
  37-39 and the computation of \<open>parsed\<close> named.
\<close>

definition perfProcessor ::
  "('b, 'k, 'e, 'h, 's, 'x) chartingUtils \<Rightarrow> 'e \<Rightarrow> 'k SvRtPerfCountsThreadType \<Rightarrow> 'h" where
  "perfProcessor utils bucketTicketsEstimatedTime perfLog =
     getTimeWeightedHistogram utils (buckets perfLog) bucketTicketsEstimatedTime"

text \<open>Lines 36-41: the value of \<open>parsed\<close> for a response.\<close>

definition parse_apiData ::
  "('b, 'k, 'e, 'h, 's, 'x) chartingUtils \<Rightarrow> ('b, 'k) PerfChartApiSuccessResp \<Rightarrow>
   ('s, 'x) parsed option" where
  "parse_apiData utils resp =
     (let bucketTicketsEstimatedTime = getBucketTicketsEstimatedTime utils (boundaries resp)
      in processPerfLog utils (threadPerfLog resp) (perfProcessor utils bucketTicketsEstimatedTime))"

definition processedData_factory ::
  "('b, 'k, 'e, 'h, 's, 'x) chartingUtils \<Rightarrow> ('p cursor option \<Rightarrow> 'f) \<Rightarrow>
   ('b, 'k) PerfChartApiSuccessResp js_object option \<Rightarrow> string \<Rightarrow>
   ('s, 'x, 'p, 'f) viewModel option" where
  "processedData_factory utils setCursor api thread =
     (case api of
        None \<Rightarrow> None
      | Some a \<Rightarrow>
          (case parse_apiData utils (content a) of
             None \<Rightarrow> None
           | Some p \<Rightarrow>
               Some \<lparr>vm_lifespans = lifespans p,
                     vm_rest = rest p,
                     bucketLabels =
                       js_map (\<lambda>v i arr. formatTickBoundary utils v) (boundaries (content a)),
                     cursorSetter =
                       (\<lambda>s. case s of
                              None \<Rightarrow> setCursor None
                            | Some sn \<Rightarrow>
                                setCursor (Some \<lparr>cursor_threadName = thread, snap = sn\<rparr>))\<rparr>))"

text \<open>
  The dependency list \<open>[apiData, threadName, isDarkMode]\<close> of line 55, and React's
  comparison of two such lists: \<open>Object.is\<close> on each entry (identity for the response
  object, equality for the string and the boolean).
\<close>

type_synonym ('b, 'k) memo_deps =
  "('b, 'k) PerfChartApiSuccessResp js_object option \<times> string \<times> bool"

definition processedData_deps :: "('b, 'k) FullPerfChartProps \<Rightarrow> ('b, 'k) memo_deps" where
  "processedData_deps props = (apiData props, threadName props, isDarkMode props)"

fun areHookInputsEqual :: "('b, 'k) memo_deps \<Rightarrow> ('b, 'k) memo_deps \<Rightarrow> bool" where
  "areHookInputsEqual (a, t, d) (a', t', d') = (Object_is a a' \<and> t = t' \<and> d = d')"

text \<open>
  The state one mounted \<open>FullPerfChart\<close> keeps between renders: the cell of
  \<open>useMemo\<close> (the dependencies and the value of the last computation), the number of
  objects the factory has created (the identity of the next one), the two refs, and
  the dependencies the effect of lines 59-75 last ran with.
\<close>

datatype svg_element = SVGSVGElement

datatype canvas_element = HTMLCanvasElement

record ('b, 'k, 's, 'x, 'p, 'f) chart_hooks =
  memo :: "(('b, 'k) memo_deps \<times> ('s, 'x, 'p, 'f) viewModel js_object option) option"
  allocated :: nat
  svgRef :: "svg_element option"
  canvasRef :: "canvas_element option"
  effect_deps :: "(nat option \<times> number \<times> number) option"

definition chart_mount :: "('b, 'k, 's, 'x, 'p, 'f) chart_hooks" where
  "chart_mount = \<lparr>memo = None, allocated = 0, svgRef = None, canvasRef = None,
                   effect_deps = None\<rparr>"

text \<open>
  Modelled from the spec: React's \<open>useMemo\<close> is not part of the repository. Section 9
  of the spec gives its contract: the factory runs when there is no cached value or
  the dependency key differs from the cached one, and the cached value is returned
  otherwise. The result is the value, whether the factory ran, and the new state.
\<close>

definition useMemo_processedData ::
  "('b, 'k, 'e, 'h, 's, 'x) chartingUtils \<Rightarrow> ('p cursor option \<Rightarrow> 'f) \<Rightarrow>
   ('b, 'k) FullPerfChartProps \<Rightarrow> ('b, 'k, 's, 'x, 'p, 'f) chart_hooks \<Rightarrow>
   ('s, 'x, 'p, 'f) viewModel js_object option \<times> bool \<times> ('b, 'k, 's, 'x, 'p, 'f) chart_hooks" where
  "useMemo_processedData utils setCursor props st =
     (let deps = processedData_deps props;
          recompute =
            (case processedData_factory utils setCursor (apiData props) (threadName props) of
               None \<Rightarrow> (None, True, st\<lparr>memo := Some (deps, None)\<rparr>)
             | Some vm \<Rightarrow>
                 (Some (Object (allocated st) vm), True,
                  st\<lparr>memo := Some (deps, Some (Object (allocated st) vm)),
                     allocated := Suc (allocated st)\<rparr>))
      in case memo st of
           None \<Rightarrow> recompute
         | Some (prev, v) \<Rightarrow> if areHookInputsEqual deps prev then (v, False, st) else recompute)"

subsection \<open>FullPerfChart: the redraw effect (lines 59-75)\<close>

record chart_size =
  size_width :: number
  size_height :: number

record ('s, 'x, 'p, 'f) draw_args =
  draw_svgRef :: svg_element
  draw_canvasRef :: canvas_element
  draw_size :: chart_size
  draw_margins :: margins_t
  draw_isDarkMode :: bool
  draw_data :: "('s, 'x, 'p, 'f) viewModel"

datatype ('s, 'x, 'p, 'f) effect =
    ConsoleGroupCollapsed string
  | ConsoleLog string "('s, 'x, 'p, 'f) viewModel js_object" svg_element canvas_element number number
  | ConsoleTime string
  | DrawFullPerfChart "('s, 'x, 'p, 'f) draw_args"
  | ConsoleTimeEnd string
  | ConsoleGroupEnd

text \<open>
  The body of the effect, on the values its closure holds: what it does, in order.
  The two early returns of lines 60 and 61 give the empty list.
\<close>

definition redraw ::
  "bool \<Rightarrow> ('s, 'x, 'p, 'f) viewModel js_object option \<Rightarrow> svg_element option \<Rightarrow>
   canvas_element option \<Rightarrow> number \<Rightarrow> number \<Rightarrow> ('s, 'x, 'p, 'f) effect list" where
  "redraw dark processedData svg canvas w h =
     (case processedData of
        None \<Rightarrow> []
      | Some pd \<Rightarrow>
          (case svg of
             None \<Rightarrow> []
           | Some svgEl \<Rightarrow>
               (case canvas of
                  None \<Rightarrow> []
                | Some canvasEl \<Rightarrow>
                    if falsy_number w \<or> falsy_number h then []
                    else if length (vm_lifespans (content pd)) = 0 then []
                    else
                      [ConsoleGroupCollapsed ''Drawing full performance chart:'',
                       ConsoleLog ''useEffect:'' pd svgEl canvasEl w h,
                       ConsoleTime ''drawFullPerfChart'',
                       DrawFullPerfChart
                         \<lparr>draw_svgRef = svgEl, draw_canvasRef = canvasEl,
                          draw_size = \<lparr>size_width = w, size_height = h\<rparr>,
                          draw_margins = margins, draw_isDarkMode = dark,
                          draw_data = content pd\<rparr>,
                       ConsoleTimeEnd ''drawFullPerfChart'',
                       ConsoleGroupEnd])))"

subsection \<open>FullPerfChart: what it returns (lines 78-102) and one render pass\<close>

text \<open>
  The returned tree. The template strings of lines 98-99 are written with the constant
  margins filled in.
\<close>

definition FullPerfChart_return :: "number \<Rightarrow> number \<Rightarrow> vnode" where
  "FullPerfChart_return w h =
     (if falsy_number w \<or> falsy_number h then Null
      else Fragment
        [Element ''svg''
           [(''ref'', PRef ''svgRef''), (''width'', PNum w), (''height'', PNum h),
            (''style'', PStyle [(''zIndex'', PNum (Num 1)), (''position'', PStr ''absolute''),
                               (''top'', PStr ''0px''), (''left'', PStr ''0px'')])]
           [],
         Element ''canvas''
           [(''ref'', PRef ''canvasRef''),
            (''width'', PNum (number_minus (number_minus w (margin_left margins))
                                           (margin_right margins))),
            (''height'', PNum (number_minus (number_minus h (margin_top margins))
                                            (margin_bottom margins))),
            (''style'', PStyle [(''zIndex'', PNum (Num 0)), (''position'', PStr ''absolute''),
                               (''top'', PStr ''0px''), (''left'', PStr ''40px'')])]
           []])"

record ('s, 'x, 'p, 'f) chart_pass =
  pass_processedData :: "('s, 'x, 'p, 'f) viewModel js_object option"
  pass_recomputed :: bool
  pass_output :: vnode
  pass_effects :: "('s, 'x, 'p, 'f) effect list"

text \<open>
  One render of a mounted \<open>FullPerfChart\<close> and its commit: the hooks run in order,
  React attaches the refs to the elements the render returned (or clears them when it
  returned null), and the effect runs when one of \<open>processedData\<close>, \<open>width\<close> and
  \<open>height\<close> differs from the last run (the two ref objects never change). The
  component is wrapped in \<open>memo\<close>, which only skips renders.
\<close>

definition FullPerfChart ::
  "('b, 'k, 'e, 'h, 's, 'x) chartingUtils \<Rightarrow> ('p cursor option \<Rightarrow> 'f) \<Rightarrow>
   ('b, 'k) FullPerfChartProps \<Rightarrow> ('b, 'k, 's, 'x, 'p, 'f) chart_hooks \<Rightarrow>
   ('s, 'x, 'p, 'f) chart_pass \<times> ('b, 'k, 's, 'x, 'p, 'f) chart_hooks" where
  "FullPerfChart utils setCursor props st =
     (case useMemo_processedData utils setCursor props st of
        (processedData, recomputed, st1) \<Rightarrow>
          (let out = FullPerfChart_return (width props) (height props);
               st2 = st1\<lparr>svgRef := (case out of Null \<Rightarrow> None | _ \<Rightarrow> Some SVGSVGElement),
                         canvasRef := (case out of Null \<Rightarrow> None | _ \<Rightarrow> Some HTMLCanvasElement)\<rparr>;
               deps = (map_option identity processedData, width props, height props);
               effects =
                 (if effect_deps st2 = Some deps then []
                  else redraw (isDarkMode props) processedData (svgRef st2) (canvasRef st2)
                         (width props) (height props))
           in (\<lparr>pass_processedData = processedData, pass_recomputed = recomputed,
                 pass_output = out, pass_effects = effects\<rparr>,
               st2\<lparr>effect_deps := Some deps\<rparr>)))"

subsection \<open>FullPerfCard: the request (lines 139-151)\<close>

record request =
  http_method :: string
  path :: string
  pathParams :: "(string \<times> string) list"
  throwGenericErrors :: bool

text \<open>
  The call \<open>chartApi({pathParams: {thread: selectedThread}})\<close> on the hook configured
  at lines 139-143.
\<close>

definition chartApi_request :: "string \<Rightarrow> request" where
  "chartApi_request thread =
     \<lparr>http_method = ''GET'', path = ''/perfChartData/:thread/'',
      pathParams = [(''thread'', thread)], throwGenericErrors = True\<rparr>"

text \<open>
  The fetcher handed to \<open>useSWR\<close>. \<open>chartApi\<close> is the backend as the hook sees it:
  it throws (\<open>Inl\<close>) or resolves with a body, which may be falsy (\<open>None\<close>).
\<close>

definition fetcher :: "(request \<Rightarrow> js_error + 'a option) \<Rightarrow> string \<Rightarrow> js_error + 'a" where
  "fetcher chartApi thread =
     (case chartApi (chartApi_request thread) of
        Inl e \<Rightarrow> Inl e
      | Inr None \<Rightarrow> Inl (Error (Some ''empty_response''))
      | Inr (Some d) \<Rightarrow> Inr d)"

subsection \<open>FullPerfCard: state, events and content (lines 134-174)\<close>

text \<open>What \<open>useSWR\<close> hands to the component.\<close>

record 'a swr_response =
  data :: "'a option"
  error :: "js_error option"
  isLoading :: bool

text \<open>
  The state of a mounted card: its two \<open>useState\<close> cells, the value of
  \<open>useIsDarkMode\<close>, what \<open>useSWR\<close> currently returns, the dependency the effect of
  lines 153-156 last ran with, and the requests issued so far, oldest first. The two
  \<open>useState\<close> cells start as lines 135-136 say; the theme and the response start
  as a first fetch under way in light mode, and the events below take them to any
  other value.
\<close>

record 'a card_state =
  chartSize :: chart_size
  selectedThread :: string
  darkMode :: bool
  swrChartApiResp :: "'a swr_response"
  mutate_deps :: "string option"
  requests :: "request list"

definition card_initial :: "'a card_state" where
  "card_initial =
     \<lparr>chartSize = \<lparr>size_width = Num 0, size_height = Num 0\<rparr>,
      selectedThread = ''svMain'',
      darkMode = False,
      swrChartApiResp = \<lparr>data = None, error = None, isLoading = True\<rparr>,
      mutate_deps = None,
      requests = []\<rparr>"

text \<open>The values of the three \<open>SelectItem\<close>s (lines 188-196).\<close>

definition select_items :: "string list" where
  "select_items = [''svMain'', ''svSync'', ''svNetwork'']"

text \<open>
  A run of the fetcher (lines 145-151): one call of \<open>chartApi\<close> with the thread of
  the current render.
\<close>

definition run_fetcher :: "'a card_state \<Rightarrow> 'a card_state" where
  "run_fetcher s = s\<lparr>requests := requests s @ [chartApi_request (selectedThread s)]\<rparr>"

text \<open>
  Modelled from the spec: \<open>swrChartApiResp.mutate\<close> belongs to the fetch library,
  which is not part of the repository. Section 2 of the spec has the request re-issued
  on a selection change: the call without arguments runs the fetcher once.
\<close>

definition mutate :: "'a card_state \<Rightarrow> 'a card_state" where
  "mutate s = run_fetcher s"

text \<open>
  The commit of a render: the effect of lines 153-156 runs on the first commit and
  whenever \<open>selectedThread\<close> differs from the value it last ran with.
\<close>

definition card_commit :: "'a card_state \<Rightarrow> 'a card_state" where
  "card_commit s =
     (if mutate_deps s = Some (selectedThread s) then s
      else mutate (s\<lparr>mutate_deps := Some (selectedThread s)\<rparr>))"

definition card_mounted :: "'a card_state" where
  "card_mounted = card_commit card_initial"

text \<open>
  What can happen to a mounted card: the select reports a value
  (\<open>onValueChange={setSelectedThread}\<close>), the resize container reports a size
  (\<open>onDebouncedResize={setChartSize}\<close>), the theme changes, the fetch library runs the
  fetcher on its own (on mount, on focus, on reconnect), or the fetch library returns
  something new.
\<close>

datatype 'a card_event =
    ValueChange string
  | DebouncedResize chart_size
  | ThemeChange bool
  | Revalidate
  | SwrUpdate "'a swr_response"

fun card_step :: "'a card_state \<Rightarrow> 'a card_event \<Rightarrow> 'a card_state" where
  "card_step s (ValueChange v) = card_commit (s\<lparr>selectedThread := v\<rparr>)"
| "card_step s (DebouncedResize sz) = card_commit (s\<lparr>chartSize := sz\<rparr>)"
| "card_step s (ThemeChange d) = card_commit (s\<lparr>darkMode := d\<rparr>)"
| "card_step s Revalidate = run_fetcher s"
| "card_step s (SwrUpdate r) = card_commit (s\<lparr>swrChartApiResp := r\<rparr>)"

text \<open>The select only reports the value of one of its items.\<close>

fun possible :: "'a card_event \<Rightarrow> bool" where
  "possible (ValueChange v) = (v \<in> set select_items)"
| "possible _ = True"

definition card_run :: "'a card_event list \<Rightarrow> 'a card_state" where
  "card_run es = foldl card_step card_mounted es"

text \<open>The thread a request carries, if it carries one.\<close>

definition request_thread :: "request \<Rightarrow> string option" where
  "request_thread r = map_of (pathParams r) ''thread''"

text \<open>
  A request as the endpoint takes it: \<open>GET /perfChartData/:thread/\<close> with one path
  parameter, the thread, which is one of the select's values.
\<close>

definition request_ok :: "request \<Rightarrow> bool" where
  "request_ok r =
     (http_method r = ''GET'' \<and> path r = ''/perfChartData/:thread/'' \<and>
      (\<exists>t \<in> set select_items. pathParams r = [(''thread'', t)]))"

text \<open>
  \<open>contentNode\<close> (lines 159-174): the element placed in the resize container. The
  child components are elements here; \<open>render_content\<close> renders them.
\<close>

datatype ('b, 'k) content =
    NoContent
  | FullPerfChartElement "('b, 'k) FullPerfChartProps"
  | Markup vnode
  | ChartErrorMessageElement js_error

definition spinner :: vnode where
  "spinner =
     Element ''div''
       [(''className'', PStr ''absolute inset-0 flex flex-col items-center justify-center'')]
       [Element ''Loader2Icon''
          [(''className'', PStr ''animate-spin size-16 text-muted-foreground'')] []]"

definition contentNode ::
  "('b, 'k) PerfChartApiSuccessResp js_object card_state \<Rightarrow> ('b, 'k) content" where
  "contentNode s =
     (case data (swrChartApiResp s) of
        Some d \<Rightarrow>
          FullPerfChartElement
            \<lparr>threadName = selectedThread s, apiData = Some d,
             width = size_width (chartSize s), height = size_height (chartSize s),
             isDarkMode = darkMode s\<rparr>
      | None \<Rightarrow>
          if isLoading (swrChartApiResp s) then Markup spinner
          else (case error (swrChartApiResp s) of
                  Some e \<Rightarrow> ChartErrorMessageElement e
                | None \<Rightarrow> NoContent))"

definition render_content :: "('b, 'k) content \<Rightarrow> vnode" where
  "render_content c =
     (case c of
        NoContent \<Rightarrow> Null
      | FullPerfChartElement props \<Rightarrow> FullPerfChart_return (width props) (height props)
      | Markup v \<Rightarrow> v
      | ChartErrorMessageElement e \<Rightarrow> ChartErrorMessage e)"

subsection \<open>Sample values\<close>

text \<open>
  Concrete inputs on which the properties below are exercised: stand-ins for the
  helpers of \<open>./chartingUtils\<close>, two responses (one with an empty log), the props
  of a visible chart and the view model the factory derives from them.
\<close>

definition example_utils :: "(nat, nat list, nat, nat, nat, unit) chartingUtils" where
  "example_utils =
     \<lparr>getBucketTicketsEstimatedTime = sum_list,
      getTimeWeightedHistogram = (\<lambda>k e. sum_list k + e),
      processPerfLog = (\<lambda>log f. Some \<lparr>lifespans = map f log, rest = ()\<rparr>),
      formatTickBoundary = (\<lambda>b. replicate b CHR ''x'')\<rparr>"

definition example_resp :: "(nat, nat list) PerfChartApiSuccessResp" where
  "example_resp = \<lparr>boundaries = [1, 2], threadPerfLog = [\<lparr>buckets = [3, 4]\<rparr>]\<rparr>"

definition example_empty :: "(nat, nat list) PerfChartApiSuccessResp" where
  "example_empty = \<lparr>boundaries = [1, 2], threadPerfLog = []\<rparr>"

definition example_props :: "(nat, nat list) FullPerfChartProps" where
  "example_props =
     \<lparr>threadName = ''svMain'', apiData = Some (Object 7 example_resp),
      width = Num 800, height = Num 400, isDarkMode = True\<rparr>"

definition example_setCursor :: "nat cursor option \<Rightarrow> nat cursor option" where
  "example_setCursor c = c"

definition example_viewModel :: "(nat, unit, nat, nat cursor option) viewModel" where
  "example_viewModel =
     \<lparr>vm_lifespans = [10], vm_rest = (), bucketLabels = [''x'', ''xx''],
      cursorSetter =
        (\<lambda>s. case s of
               None \<Rightarrow> example_setCursor None
             | Some sn \<Rightarrow>
                 example_setCursor (Some \<lparr>cursor_threadName = ''svMain'', snap = sn\<rparr>))\<rparr>"

definition example_draw :: "(nat, unit, nat, nat cursor option) draw_args" where
  "example_draw =
     \<lparr>draw_svgRef = SVGSVGElement, draw_canvasRef = HTMLCanvasElement,
      draw_size = \<lparr>size_width = Num 800, size_height = Num 400\<rparr>,
      draw_margins = margins, draw_isDarkMode = True, draw_data = example_viewModel\<rparr>"

text \<open>
  Four states of the card: data of an earlier fetch together with a later error, a
  first fetch under way, a failed first fetch, and a response with nothing in it.
\<close>

definition example_idle :: "(nat, nat list) PerfChartApiSuccessResp js_object card_state" where
  "example_idle =
     card_initial\<lparr>swrChartApiResp := \<lparr>data = None, error = None, isLoading = False\<rparr>\<rparr>"

definition example_stale :: "(nat, nat list) PerfChartApiSuccessResp js_object card_state" where
  "example_stale =
     card_initial\<lparr>swrChartApiResp :=
       \<lparr>data = Some (Object 7 example_resp),
        error = Some (BackendApiError (Some ''data_unavailable'')), isLoading = False\<rparr>\<rparr>"

definition example_loading :: "(nat, nat list) PerfChartApiSuccessResp js_object card_state" where
  "example_loading =
     card_initial\<lparr>swrChartApiResp :=
       \<lparr>data = None, error = Some (Error (Some ''empty_response'')), isLoading = True\<rparr>\<rparr>"

definition example_failed :: "(nat, nat list) PerfChartApiSuccessResp js_object card_state" where
  "example_failed =
     card_initial\<lparr>swrChartApiResp :=
       \<lparr>data = None, error = Some (Error (Some ''empty_response'')), isLoading = False\<rparr>\<rparr>"

section \<open>Properties\<close>

subsection \<open>Auxiliary facts\<close>

lemma js_map_from_unary:
  "js_map_from i (\<lambda>v j arr. f v) arr xs = map f xs"
  by (induction xs arbitrary: i) simp_all

lemma js_map_unary: "js_map (\<lambda>v j arr. f v) xs = map f xs"
  by (simp add: js_map_def js_map_from_unary)

lemma falsy_number_zero: "falsy_number (Num 0)"
  by (simp add: falsy_number_def)

lemma Object_is_refl: "Object_is a a"
  by (simp add: Object_is_def split: option.splits)

lemma Object_is_sym: "Object_is a b \<Longrightarrow> Object_is b a"
  by (auto simp: Object_is_def split: option.splits)

lemma Object_is_trans: "Object_is a b \<Longrightarrow> Object_is b c \<Longrightarrow> Object_is a c"
  by (auto simp: Object_is_def split: option.splits)

lemma areHookInputsEqual_refl: "areHookInputsEqual d d"
  by (cases d) (simp add: Object_is_refl)

lemma areHookInputsEqual_sym: "areHookInputsEqual d e \<Longrightarrow> areHookInputsEqual e d"
  by (cases d; cases e) (auto dest: Object_is_sym)

lemma areHookInputsEqual_trans:
  "areHookInputsEqual d e \<Longrightarrow> areHookInputsEqual e f \<Longrightarrow> areHookInputsEqual d f"
  by (cases d; cases e; cases f) (auto dest: Object_is_trans)

lemma example_factory:
  "processedData_factory example_utils example_setCursor (Some (Object 7 example_resp)) ''svMain'' =
     Some example_viewModel"
  by (simp add: processedData_factory_def parse_apiData_def perfProcessor_def example_utils_def
        example_resp_def example_viewModel_def js_map_unary eval_nat_numeral)

lemma example_factory_empty:
  "processedData_factory example_utils example_setCursor (Some (Object 8 example_empty)) ''svMain'' =
     Some (example_viewModel\<lparr>vm_lifespans := []\<rparr>)"
  by (simp add: processedData_factory_def parse_apiData_def perfProcessor_def example_utils_def
        example_empty_def example_viewModel_def js_map_unary eval_nat_numeral)

subsection \<open>The redraw effect\<close>

lemma redraw_draws:
  "DrawFullPerfChart a \<in> set (redraw dark pd svg canvas w h) \<Longrightarrow>
     \<exists>v svgEl canvasEl. pd = Some v \<and> svg = Some svgEl \<and> canvas = Some canvasEl \<and>
         \<not> falsy_number w \<and> \<not> falsy_number h \<and> vm_lifespans (content v) \<noteq> []"
  by (auto simp: redraw_def split: option.splits if_splits)

text \<open>Conversely, the effect does draw once every guard is passed.\<close>

lemma redraw_when_ready:
  assumes "\<not> falsy_number w" and "\<not> falsy_number h" and "vm_lifespans (content v) \<noteq> []"
  shows "DrawFullPerfChart
           \<lparr>draw_svgRef = svgEl, draw_canvasRef = canvasEl,
            draw_size = \<lparr>size_width = w, size_height = h\<rparr>,
            draw_margins = margins, draw_isDarkMode = dark, draw_data = content v\<rparr>
         \<in> set (redraw dark (Some v) (Some svgEl) (Some canvasEl) w h)"
  using assms by (simp add: redraw_def)

lemma pass_effects_redraw:
  "set (pass_effects (fst (FullPerfChart utils setCursor props st))) \<subseteq>
     set (redraw (isDarkMode props)
            (pass_processedData (fst (FullPerfChart utils setCursor props st)))
            (svgRef (snd (FullPerfChart utils setCursor props st)))
            (canvasRef (snd (FullPerfChart utils setCursor props st)))
            (width props) (height props))"
  by (simp add: FullPerfChart_def Let_def split: prod.splits)

lemma example_first_pass:
  "FullPerfChart example_utils example_setCursor example_props chart_mount =
     (\<lparr>pass_processedData = Some (Object 0 example_viewModel), pass_recomputed = True,
       pass_output = FullPerfChart_return (Num 800) (Num 400),
       pass_effects = redraw True (Some (Object 0 example_viewModel)) (Some SVGSVGElement)
                        (Some HTMLCanvasElement) (Num 800) (Num 400)\<rparr>,
      \<lparr>memo = Some (processedData_deps example_props, Some (Object 0 example_viewModel)),
       allocated = Suc 0, svgRef = Some SVGSVGElement, canvasRef = Some HTMLCanvasElement,
       effect_deps = Some (Some 0, Num 800, Num 400)\<rparr>)"
proof -
  have u: "useMemo_processedData example_utils example_setCursor example_props chart_mount =
      (Some (Object 0 example_viewModel), True,
       chart_mount\<lparr>memo := Some (processedData_deps example_props, Some (Object 0 example_viewModel)),
                   allocated := Suc 0\<rparr>)"
    using example_factory
    by (simp add: useMemo_processedData_def chart_mount_def example_props_def Let_def)
  have p: "width example_props = Num 800" "height example_props = Num 400"
    "isDarkMode example_props = True"
    by (simp_all add: example_props_def)
  show ?thesis
    unfolding FullPerfChart_def u
    by (simp add: p Let_def chart_mount_def FullPerfChart_return_def falsy_number_def)
qed

lemma example_draw_happens:
  "DrawFullPerfChart example_draw \<in>
     set (redraw True (Some (Object 0 example_viewModel)) (Some SVGSVGElement)
            (Some HTMLCanvasElement) (Num 800) (Num 400))"
  by (simp add: redraw_def example_draw_def example_viewModel_def falsy_number_def)

text \<open>
  C1. The drawing routine is called only from the effect, and only when the view
  model exists, both refs hold a mounted element, width and height are both non-zero
  and the view model has at least one lifespan. This holds for the effect's body on
  any values, and for the effects of any render pass of the component. In particular,
  when parsing the response yields no lifespans, no draw call is made, whatever the
  dimensions.
\<close>

theorem draw_only_when_ready:
  "(DrawFullPerfChart a \<in> set (redraw dark pd svg canvas w h) \<longrightarrow>
      (\<exists>v svgEl canvasEl. pd = Some v \<and> svg = Some svgEl \<and> canvas = Some canvasEl \<and>
         w \<noteq> Num 0 \<and> h \<noteq> Num 0 \<and> \<not> falsy_number w \<and> \<not> falsy_number h \<and>
         vm_lifespans (content v) \<noteq> []))
   \<and> (DrawFullPerfChart a \<in> set (pass_effects (fst (FullPerfChart utils setCursor props st))) \<longrightarrow>
      (\<exists>v. pass_processedData (fst (FullPerfChart utils setCursor props st)) = Some v \<and>
           vm_lifespans (content v) \<noteq> []) \<and>
      svgRef (snd (FullPerfChart utils setCursor props st)) \<noteq> None \<and>
      canvasRef (snd (FullPerfChart utils setCursor props st)) \<noteq> None \<and>
      width props \<noteq> Num 0 \<and> height props \<noteq> Num 0)
   \<and> ((\<forall>p. parse_apiData utils (content api) = Some p \<longrightarrow> lifespans p = []) \<longrightarrow>
      DrawFullPerfChart a \<notin>
        set (redraw dark
               (map_option (Object i) (processedData_factory utils setCursor (Some api) thread))
               svg canvas w h))"
proof (intro conjI impI)
  assume d: "DrawFullPerfChart a \<in> set (redraw dark pd svg canvas w h)"
  from redraw_draws[OF d] show
    "\<exists>v svgEl canvasEl. pd = Some v \<and> svg = Some svgEl \<and> canvas = Some canvasEl \<and>
         w \<noteq> Num 0 \<and> h \<noteq> Num 0 \<and> \<not> falsy_number w \<and> \<not> falsy_number h \<and>
         vm_lifespans (content v) \<noteq> []"
    using falsy_number_zero by auto
next
  assume "DrawFullPerfChart a \<in> set (pass_effects (fst (FullPerfChart utils setCursor props st)))"
  then have "DrawFullPerfChart a \<in>
     set (redraw (isDarkMode props)
            (pass_processedData (fst (FullPerfChart utils setCursor props st)))
            (svgRef (snd (FullPerfChart utils setCursor props st)))
            (canvasRef (snd (FullPerfChart utils setCursor props st)))
            (width props) (height props))"
    using pass_effects_redraw by blast
  from redraw_draws[OF this] have ready:
    "\<exists>v svgEl canvasEl.
       pass_processedData (fst (FullPerfChart utils setCursor props st)) = Some v \<and>
       svgRef (snd (FullPerfChart utils setCursor props st)) = Some svgEl \<and>
       canvasRef (snd (FullPerfChart utils setCursor props st)) = Some canvasEl \<and>
       \<not> falsy_number (width props) \<and> \<not> falsy_number (height props) \<and>
       vm_lifespans (content v) \<noteq> []" .
  from ready show
    "\<exists>v. pass_processedData (fst (FullPerfChart utils setCursor props st)) = Some v \<and>
         vm_lifespans (content v) \<noteq> []"
    by blast
  from ready show "svgRef (snd (FullPerfChart utils setCursor props st)) \<noteq> None" by auto
  from ready show "canvasRef (snd (FullPerfChart utils setCursor props st)) \<noteq> None" by auto
  from ready show "width props \<noteq> Num 0" using falsy_number_zero by auto
  from ready show "height props \<noteq> Num 0" using falsy_number_zero by auto
next
  assume empty: "\<forall>p. parse_apiData utils (content api) = Some p \<longrightarrow> lifespans p = []"
  show "DrawFullPerfChart a \<notin>
        set (redraw dark
               (map_option (Object i) (processedData_factory utils setCursor (Some api) thread))
               svg canvas w h)"
  proof
    assume "DrawFullPerfChart a \<in>
        set (redraw dark
               (map_option (Object i) (processedData_factory utils setCursor (Some api) thread))
               svg canvas w h)"
    from redraw_draws[OF this] obtain v where
      v: "map_option (Object i) (processedData_factory utils setCursor (Some api) thread) = Some v"
      and l: "vm_lifespans (content v) \<noteq> []"
      by blast
    from v empty have "vm_lifespans (content v) = []"
      by (auto simp: processedData_factory_def split: option.splits)
    with l show False by simp
  qed
qed

theorem draw_only_when_ready_witness:
  "DrawFullPerfChart example_draw \<in>
     set (redraw True (Some (Object 0 example_viewModel)) (Some SVGSVGElement)
            (Some HTMLCanvasElement) (Num 800) (Num 400))
   \<and> DrawFullPerfChart example_draw \<in>
     set (pass_effects (fst (FullPerfChart example_utils example_setCursor example_props chart_mount)))
   \<and> parse_apiData example_utils example_empty = Some \<lparr>lifespans = [], rest = ()\<rparr>
   \<and> Num 800 \<noteq> Num 0 \<and> Num 400 \<noteq> Num 0
   \<and> vm_lifespans example_viewModel \<noteq> []
   \<and> svgRef (snd (FullPerfChart example_utils example_setCursor example_props chart_mount)) \<noteq> None
   \<and> DrawFullPerfChart example_draw \<notin>
     set (redraw True
            (map_option (Object 0)
               (processedData_factory example_utils example_setCursor
                  (Some (Object 8 example_empty)) ''svMain''))
            (Some SVGSVGElement) (Some HTMLCanvasElement) (Num 800) (Num 400))"
proof -
  have d1: "DrawFullPerfChart example_draw \<in>
     set (redraw True (Some (Object 0 example_viewModel)) (Some SVGSVGElement)
            (Some HTMLCanvasElement) (Num 800) (Num 400))"
    by (rule example_draw_happens)
  have d2: "DrawFullPerfChart example_draw \<in>
     set (pass_effects (fst (FullPerfChart example_utils example_setCursor example_props chart_mount)))"
    using d1 by (simp add: example_first_pass)
  have e: "parse_apiData example_utils example_empty = Some \<lparr>lifespans = [], rest = ()\<rparr>"
    by (simp add: parse_apiData_def example_utils_def example_empty_def)
  have e': "\<forall>p. parse_apiData example_utils (content (Object 8 example_empty)) = Some p \<longrightarrow>
              lifespans p = []"
    using e by simp
  note t = draw_only_when_ready[where a = example_draw and dark = True
      and pd = "Some (Object 0 example_viewModel)" and svg = "Some SVGSVGElement"
      and canvas = "Some HTMLCanvasElement" and w = "Num 800" and h = "Num 400"
      and utils = example_utils and setCursor = example_setCursor and props = example_props
      and st = chart_mount and api = "Object 8 example_empty" and i = 0 and thread = "''svMain''"]
  from t d1 have a: "vm_lifespans example_viewModel \<noteq> []" by auto
  from t d2 have b:
    "svgRef (snd (FullPerfChart example_utils example_setCursor example_props chart_mount)) \<noteq> None"
    by blast
  from t e' have c: "DrawFullPerfChart example_draw \<notin>
     set (redraw True
            (map_option (Object 0)
               (processedData_factory example_utils example_setCursor
                  (Some (Object 8 example_empty)) ''svMain''))
            (Some SVGSVGElement) (Some HTMLCanvasElement) (Num 800) (Num 400))"
    by blast
  from d1 d2 e a b c show ?thesis by simp
qed

subsection \<open>ChartErrorMessage\<close>

text \<open>The four documented tags and their fixed texts.\<close>

lemma ChartErrorMessage_known:
  "ChartErrorMessage (BackendApiError (Some ''bad_request'')) =
     Element ''div''
       [(''className'', PStr ''absolute inset-0 flex flex-col items-center justify-center text-2xl text-muted-foreground'')]
       [Text ''Chart data loading failed: bad request.'']"
  "ChartErrorMessage (BackendApiError (Some ''invalid_thread_name'')) =
     Element ''div''
       [(''className'', PStr ''absolute inset-0 flex flex-col items-center justify-center text-2xl text-muted-foreground'')]
       [Text ''Chart data loading failed: invalid thread name.'']"
  "ChartErrorMessage (BackendApiError (Some ''data_unavailable'')) =
     Element ''div''
       [(''className'', PStr ''absolute inset-0 flex flex-col items-center justify-center text-2xl text-muted-foreground'')]
       [Text ''Chart data loading failed: data not yet available.'']"
  "textContent (ChartErrorMessage (BackendApiError (Some ''not_enough_data''))) =
     ''There is not enough data to display the chart just yet.'' @
     ''The chart requires at least 30 minutes of server runtime data to be available.''"
  by (simp_all add: ChartErrorMessage_def get_property_def errorMessageMaps_def
        ToPropertyKey_def nullish_coalesce_def)

text \<open>
  A message that is neither one of the four tags nor a name inherited from
  \<open>Object.prototype\<close> gets the fallback text; so does a missing message.
\<close>

lemma ChartErrorMessage_fallback:
  assumes "m \<notin> set (map fst errorMessageMaps)" and "m \<notin> set Object_prototype_names"
  shows "ChartErrorMessage (BackendApiError (Some m)) =
     Element ''div''
       [(''className'', PStr ''absolute inset-0 flex flex-col items-center justify-center text-2xl text-muted-foreground'')]
       [Text ''Unknown BackendApiError'']"
proof -
  have "map_of errorMessageMaps m = None"
    using assms(1) by (simp add: map_of_eq_None_iff)
  then show ?thesis
    using assms(2)
    by (simp add: ChartErrorMessage_def get_property_def ToPropertyKey_def nullish_coalesce_def)
qed

lemma ChartErrorMessage_no_message:
  "ChartErrorMessage (BackendApiError None) =
     Element ''div''
       [(''className'', PStr ''absolute inset-0 flex flex-col items-center justify-center text-2xl text-muted-foreground'')]
       [Text ''Unknown BackendApiError'']"
  by (simp add: ChartErrorMessage_def get_property_def errorMessageMaps_def
        ToPropertyKey_def nullish_coalesce_def Object_prototype_names_def)

text \<open>
  C2. Every \<open>BackendApiError\<close> whose message is one of the four tags shows that tag's
  fixed text, and any other message shows \<open>Unknown BackendApiError\<close>. The second half
  fails for a message that names a property every object inherits: for the message
  \<open>toString\<close> the lookup \<open>errorMessageMaps[error.message]\<close> finds the inherited
  function, \<open>??\<close> does not fall back, and the fallback text is not shown.
\<close>

theorem ChartErrorMessage_inherited_name:
  "ChartErrorMessage (BackendApiError (Some ''toString'')) =
     Element ''div''
       [(''className'', PStr ''absolute inset-0 flex flex-col items-center justify-center text-2xl text-muted-foreground'')]
       [PrototypeMember ''toString'']
   \<and> ''toString'' \<notin> set (map fst errorMessageMaps)
   \<and> textContent (ChartErrorMessage (BackendApiError (Some ''toString''))) \<noteq>
       ''Unknown BackendApiError''"
  by (simp add: ChartErrorMessage_def get_property_def errorMessageMaps_def
        ToPropertyKey_def nullish_coalesce_def Object_prototype_names_def)

subsection \<open>What the chart returns\<close>

text \<open>
  C5. When width is zero or height is zero, \<open>FullPerfChart\<close> returns null, whatever
  its other props (data available or not) and whatever state its hooks are in.
\<close>

theorem null_without_size:
  "width props = Num 0 \<or> height props = Num 0 \<Longrightarrow>
   pass_output (fst (FullPerfChart utils setCursor props st)) = Null \<and>
   FullPerfChart_return (width props) (height props) = Null"
  by (auto simp: FullPerfChart_def FullPerfChart_return_def falsy_number_def Let_def
           split: prod.splits)

theorem null_without_size_witness:
  "height (example_props\<lparr>height := Num 0\<rparr>) = Num 0 \<and>
   apiData (example_props\<lparr>height := Num 0\<rparr>) \<noteq> None \<and>
   pass_output
     (fst (FullPerfChart example_utils example_setCursor (example_props\<lparr>height := Num 0\<rparr>)
             chart_mount)) = Null"
proof -
  have h: "width (example_props\<lparr>height := Num 0\<rparr>) = Num 0 \<or>
           height (example_props\<lparr>height := Num 0\<rparr>) = Num 0"
    by simp
  from null_without_size[OF h, of example_utils example_setCursor chart_mount]
  show ?thesis by (simp add: example_props_def)
qed

subsection \<open>The labels\<close>

text \<open>
  C7. Whenever the factory yields a view model for a response, its \<open>bucketLabels\<close> are
  exactly \<open>formatTickBoundary\<close> applied to each element of the response's
  \<open>boundaries\<close>, in order.
\<close>

theorem bucketLabels_formatted:
  "processedData_factory utils setCursor (Some a) thread = Some vm \<Longrightarrow>
   bucketLabels vm = map (formatTickBoundary utils) (boundaries (content a))"
  by (auto simp: processedData_factory_def js_map_unary split: option.splits)

theorem bucketLabels_formatted_witness:
  "processedData_factory example_utils example_setCursor (Some (Object 7 example_resp)) ''svMain'' =
     Some example_viewModel \<and>
   bucketLabels example_viewModel =
     map (formatTickBoundary example_utils) (boundaries (content (Object 7 example_resp))) \<and>
   bucketLabels example_viewModel = [''x'', ''xx'']"
  using bucketLabels_formatted[OF example_factory]
  by (simp add: example_factory example_viewModel_def)

subsection \<open>The content of the card\<close>

text \<open>
  C9. The branches of \<open>contentNode\<close> exclude one another in a fixed order: data gives
  the chart; otherwise loading gives the spinner; otherwise an error gives the error
  message; otherwise nothing. In particular, while data of an earlier fetch is there,
  no error is displayed.
\<close>

theorem contentNode_precedence:
  "(data (swrChartApiResp s) = Some d \<longrightarrow>
      contentNode s = FullPerfChartElement
            \<lparr>threadName = selectedThread s, apiData = Some d,
             width = size_width (chartSize s), height = size_height (chartSize s),
             isDarkMode = darkMode s\<rparr>)
   \<and> (data (swrChartApiResp s) = None \<and> isLoading (swrChartApiResp s) \<longrightarrow>
        contentNode s = Markup spinner)
   \<and> (data (swrChartApiResp s) = None \<and> \<not> isLoading (swrChartApiResp s) \<and>
        error (swrChartApiResp s) = Some e \<longrightarrow> contentNode s = ChartErrorMessageElement e)
   \<and> (data (swrChartApiResp s) = None \<and> \<not> isLoading (swrChartApiResp s) \<and>
        error (swrChartApiResp s) = None \<longrightarrow> contentNode s = NoContent)
   \<and> (data (swrChartApiResp s) \<noteq> None \<longrightarrow> contentNode s \<noteq> ChartErrorMessageElement e')"
  by (auto simp: contentNode_def)

theorem contentNode_precedence_witness:
  "data (swrChartApiResp example_stale) = Some (Object 7 example_resp)
   \<and> error (swrChartApiResp example_stale) = Some (BackendApiError (Some ''data_unavailable''))
   \<and> contentNode example_stale =
       FullPerfChartElement
         \<lparr>threadName = ''svMain'', apiData = Some (Object 7 example_resp),
          width = Num 0, height = Num 0, isDarkMode = False\<rparr>
   \<and> contentNode example_stale \<noteq> ChartErrorMessageElement (BackendApiError (Some ''data_unavailable''))
   \<and> isLoading (swrChartApiResp example_loading)
   \<and> contentNode example_loading = Markup spinner
   \<and> contentNode example_failed = ChartErrorMessageElement (Error (Some ''empty_response''))
   \<and> contentNode example_idle = NoContent"
proof -
  have s: "data (swrChartApiResp example_stale) = Some (Object 7 example_resp)"
    "error (swrChartApiResp example_stale) = Some (BackendApiError (Some ''data_unavailable''))"
    "selectedThread example_stale = ''svMain''" "darkMode example_stale = False"
    "chartSize example_stale = \<lparr>size_width = Num 0, size_height = Num 0\<rparr>"
    by (simp_all add: example_stale_def card_initial_def)
  have l: "data (swrChartApiResp example_loading) = None"
    "isLoading (swrChartApiResp example_loading)"
    by (simp_all add: example_loading_def)
  have f: "data (swrChartApiResp example_failed) = None"
    "\<not> isLoading (swrChartApiResp example_failed)"
    "error (swrChartApiResp example_failed) = Some (Error (Some ''empty_response''))"
    by (simp_all add: example_failed_def)
  have n: "data (swrChartApiResp example_idle) = None"
    "\<not> isLoading (swrChartApiResp example_idle)"
    "error (swrChartApiResp example_idle) = None"
    by (simp_all add: example_idle_def)
  from contentNode_precedence[of example_stale "Object 7 example_resp" _
      "BackendApiError (Some ''data_unavailable'')"] s
  have 1: "contentNode example_stale =
       FullPerfChartElement
         \<lparr>threadName = ''svMain'', apiData = Some (Object 7 example_resp),
          width = Num 0, height = Num 0, isDarkMode = False\<rparr>"
    and 2: "contentNode example_stale \<noteq>
              ChartErrorMessageElement (BackendApiError (Some ''data_unavailable''))"
    by simp_all
  from contentNode_precedence[of example_loading] l
  have 3: "contentNode example_loading = Markup spinner" by simp
  from contentNode_precedence[of example_failed _ "Error (Some ''empty_response'')"] f
  have 4: "contentNode example_failed = ChartErrorMessageElement (Error (Some ''empty_response''))"
    by simp
  from contentNode_precedence[of example_idle] n
  have 5: "contentNode example_idle = NoContent" by simp
  from s l 1 2 3 4 5 show ?thesis by simp
qed

subsection \<open>The empty response\<close>

text \<open>
  C10. When the backend call resolves with a falsy body, the fetcher throws a plain
  \<open>Error\<close> with the message \<open>empty_response\<close>. It is not a \<open>BackendApiError\<close>, so
  \<open>ChartErrorMessage\<close> takes its generic branch and shows \<open>Error: empty_response\<close>, in
  the card too once it is the error of a response without data that is not loading;
  the same message on a \<open>BackendApiError\<close> would show \<open>Unknown BackendApiError\<close>.
\<close>

theorem empty_response_generic:
  "chartApi (chartApi_request thread) = Inr None \<Longrightarrow>
   fetcher chartApi thread = Inl (Error (Some ''empty_response''))
   \<and> ChartErrorMessage (Error (Some ''empty_response'')) =
       Element ''div''
         [(''className'', PStr ''absolute inset-0 flex flex-col items-center justify-center text-2xl text-destructive-inline'')]
         [Text ''Error: '', Text ''empty_response'']
   \<and> textContent (ChartErrorMessage (Error (Some ''empty_response''))) = ''Error: empty_response''
   \<and> textContent (ChartErrorMessage (BackendApiError (Some ''empty_response''))) =
       ''Unknown BackendApiError''
   \<and> (swrChartApiResp s = \<lparr>data = None, error = Some (Error (Some ''empty_response'')),
                              isLoading = False\<rparr> \<longrightarrow>
       textContent (render_content (contentNode s)) = ''Error: empty_response'')"
proof (intro conjI impI)
  assume "chartApi (chartApi_request thread) = Inr None"
  then show "fetcher chartApi thread = Inl (Error (Some ''empty_response''))"
    by (simp add: fetcher_def)
next
  show "ChartErrorMessage (Error (Some ''empty_response'')) =
       Element ''div''
         [(''className'', PStr ''absolute inset-0 flex flex-col items-center justify-center text-2xl text-destructive-inline'')]
         [Text ''Error: '', Text ''empty_response'']"
    by (simp add: ChartErrorMessage_def nullish_coalesce_def)
next
  show "textContent (ChartErrorMessage (Error (Some ''empty_response''))) = ''Error: empty_response''"
    by (simp add: ChartErrorMessage_def nullish_coalesce_def)
next
  show "textContent (ChartErrorMessage (BackendApiError (Some ''empty_response''))) =
       ''Unknown BackendApiError''"
    by (simp add: ChartErrorMessage_def get_property_def errorMessageMaps_def
          ToPropertyKey_def nullish_coalesce_def Object_prototype_names_def)
next
  assume "swrChartApiResp s = \<lparr>data = None, error = Some (Error (Some ''empty_response'')),
                              isLoading = False\<rparr>"
  then show "textContent (render_content (contentNode s)) = ''Error: empty_response''"
    by (simp add: contentNode_def render_content_def ChartErrorMessage_def nullish_coalesce_def)
qed

theorem empty_response_generic_witness:
  "(\<lambda>r. Inr None :: js_error + nat option) (chartApi_request ''svMain'') = Inr None
   \<and> fetcher (\<lambda>r. Inr None :: js_error + nat option) ''svMain'' =
       Inl (Error (Some ''empty_response''))
   \<and> swrChartApiResp example_failed =
       \<lparr>data = None, error = Some (Error (Some ''empty_response'')), isLoading = False\<rparr>
   \<and> textContent (render_content (contentNode example_failed)) = ''Error: empty_response''"
proof -
  have h: "(\<lambda>r. Inr None :: js_error + nat option) (chartApi_request ''svMain'') = Inr None"
    by simp
  have f: "swrChartApiResp example_failed =
       \<lparr>data = None, error = Some (Error (Some ''empty_response'')), isLoading = False\<rparr>"
    by (simp add: example_failed_def)
  from empty_response_generic[OF h, where s = example_failed] f show ?thesis by simp
qed

subsection \<open>The memoized view model\<close>

lemma useMemo_cell:
  assumes "useMemo_processedData utils setCursor props st = (v, c, st')"
  shows "\<exists>prev. memo st' = Some (prev, v) \<and> areHookInputsEqual (processedData_deps props) prev"
proof (cases "\<exists>prev w. memo st = Some (prev, w) \<and>
                areHookInputsEqual (processedData_deps props) prev")
  case True
  then show ?thesis
    using assms by (auto simp: useMemo_processedData_def Let_def)
next
  case False
  then have "memo st' = Some (processedData_deps props, v)"
    using assms
    by (cases "memo st")
       (auto simp: useMemo_processedData_def Let_def split: option.splits if_splits)
  then show ?thesis
    using areHookInputsEqual_refl by blast
qed

lemma useMemo_hit:
  assumes "memo st = Some (prev, v)" and "areHookInputsEqual (processedData_deps props) prev"
  shows "useMemo_processedData utils setCursor props st = (v, False, st)"
  using assms by (simp add: useMemo_processedData_def Let_def)

lemma useMemo_miss:
  assumes "memo st = Some (prev, v)" and "\<not> areHookInputsEqual (processedData_deps props) prev"
  shows "fst (snd (useMemo_processedData utils setCursor props st))"
  using assms by (simp add: useMemo_processedData_def Let_def split: option.splits)

lemma FullPerfChart_useMemo:
  "pass_processedData (fst (FullPerfChart utils setCursor props st)) =
     fst (useMemo_processedData utils setCursor props st)
   \<and> pass_recomputed (fst (FullPerfChart utils setCursor props st)) =
     fst (snd (useMemo_processedData utils setCursor props st))
   \<and> memo (snd (FullPerfChart utils setCursor props st)) =
     memo (snd (snd (useMemo_processedData utils setCursor props st)))
   \<and> allocated (snd (FullPerfChart utils setCursor props st)) =
     allocated (snd (snd (useMemo_processedData utils setCursor props st)))"
  by (simp add: FullPerfChart_def Let_def split: prod.splits)

lemma FullPerfChart_cell:
  assumes "FullPerfChart utils setCursor props st = (r, st')"
  shows "\<exists>prev. memo st' = Some (prev, pass_processedData r) \<and>
           areHookInputsEqual (processedData_deps props) prev"
proof -
  obtain v c st1 where u: "useMemo_processedData utils setCursor props st = (v, c, st1)"
    by (cases "useMemo_processedData utils setCursor props st") auto
  from useMemo_cell[OF u] obtain prev where
    "memo st1 = Some (prev, v)" "areHookInputsEqual (processedData_deps props) prev"
    by blast
  moreover have "pass_processedData r = v" "memo st' = memo st1"
    using FullPerfChart_useMemo[of utils setCursor props st] assms u by simp_all
  ultimately show ?thesis by simp
qed

text \<open>
  C3. Take two consecutive renders of one mounted chart. The second one runs the
  factory exactly when one of \<open>apiData\<close> (by identity), \<open>threadName\<close> and
  \<open>isDarkMode\<close> differs from the first render's; when all three are unchanged it
  returns the very object the first render returned and creates none, whatever else
  changed (size, \<open>setCursor\<close>, the helpers): the value depends on the dependency key
  only.
\<close>

theorem processedData_stable:
  assumes first: "FullPerfChart utils setCursor props st = (r, st')"
      and second: "FullPerfChart utils' setCursor' props' st' = (r', st'')"
  shows "(pass_recomputed r' \<longleftrightarrow>
            \<not> (Object_is (apiData props') (apiData props) \<and>
               threadName props' = threadName props \<and> isDarkMode props' = isDarkMode props))
         \<and> (Object_is (apiData props') (apiData props) \<and>
              threadName props' = threadName props \<and> isDarkMode props' = isDarkMode props \<longrightarrow>
              pass_processedData r' = pass_processedData r \<and>
              allocated st'' = allocated st')"
proof -
  from FullPerfChart_cell[OF first] obtain prev where
    cell: "memo st' = Some (prev, pass_processedData r)"
    and prev: "areHookInputsEqual (processedData_deps props) prev"
    by blast
  have same_iff:
    "areHookInputsEqual (processedData_deps props') prev \<longleftrightarrow>
       (Object_is (apiData props') (apiData props) \<and>
        threadName props' = threadName props \<and> isDarkMode props' = isDarkMode props)"
  proof -
    have "areHookInputsEqual (processedData_deps props') prev \<longleftrightarrow>
          areHookInputsEqual (processedData_deps props') (processedData_deps props)"
      using prev areHookInputsEqual_trans areHookInputsEqual_sym by blast
    then show ?thesis by (simp add: processedData_deps_def)
  qed
  have facts:
    "pass_processedData r' = fst (useMemo_processedData utils' setCursor' props' st')"
    "pass_recomputed r' = fst (snd (useMemo_processedData utils' setCursor' props' st'))"
    "allocated st'' = allocated (snd (snd (useMemo_processedData utils' setCursor' props' st')))"
    using FullPerfChart_useMemo[of utils' setCursor' props' st'] second by simp_all
  show ?thesis
  proof (cases "areHookInputsEqual (processedData_deps props') prev")
    case True
    from useMemo_hit[OF cell True, of utils' setCursor'] show ?thesis
      using facts same_iff True by simp
  next
    case False
    from useMemo_miss[OF cell False, of utils' setCursor'] show ?thesis
      using facts same_iff False by auto
  qed
qed

theorem processedData_stable_witness:
  "Object_is (apiData (example_props\<lparr>width := Num 1024\<rparr>)) (apiData example_props)
   \<and> threadName (example_props\<lparr>width := Num 1024\<rparr>) = threadName example_props
   \<and> isDarkMode (example_props\<lparr>width := Num 1024\<rparr>) = isDarkMode example_props
   \<and> pass_processedData
       (fst (FullPerfChart example_utils (\<lambda>c. None) (example_props\<lparr>width := Num 1024\<rparr>)
               (snd (FullPerfChart example_utils example_setCursor example_props chart_mount)))) =
     pass_processedData
       (fst (FullPerfChart example_utils example_setCursor example_props chart_mount))
   \<and> \<not> pass_recomputed
       (fst (FullPerfChart example_utils (\<lambda>c. None) (example_props\<lparr>width := Num 1024\<rparr>)
               (snd (FullPerfChart example_utils example_setCursor example_props chart_mount))))
   \<and> isDarkMode (example_props\<lparr>isDarkMode := False\<rparr>) \<noteq> isDarkMode example_props
   \<and> pass_recomputed
       (fst (FullPerfChart example_utils example_setCursor (example_props\<lparr>isDarkMode := False\<rparr>)
               (snd (FullPerfChart example_utils example_setCursor example_props chart_mount))))"
proof -
  have same: "Object_is (apiData (example_props\<lparr>width := Num 1024\<rparr>)) (apiData example_props)"
    "threadName (example_props\<lparr>width := Num 1024\<rparr>) = threadName example_props"
    "isDarkMode (example_props\<lparr>width := Num 1024\<rparr>) = isDarkMode example_props"
    by (simp_all add: Object_is_refl)
  have diff: "isDarkMode (example_props\<lparr>isDarkMode := False\<rparr>) \<noteq> isDarkMode example_props"
    by (simp add: example_props_def)
  have first:
    "FullPerfChart example_utils example_setCursor example_props chart_mount =
       (fst (FullPerfChart example_utils example_setCursor example_props chart_mount),
        snd (FullPerfChart example_utils example_setCursor example_props chart_mount))"
    by simp
  have resize:
    "FullPerfChart example_utils (\<lambda>c. None) (example_props\<lparr>width := Num 1024\<rparr>)
       (snd (FullPerfChart example_utils example_setCursor example_props chart_mount)) =
     (fst (FullPerfChart example_utils (\<lambda>c. None) (example_props\<lparr>width := Num 1024\<rparr>)
             (snd (FullPerfChart example_utils example_setCursor example_props chart_mount))),
      snd (FullPerfChart example_utils (\<lambda>c. None) (example_props\<lparr>width := Num 1024\<rparr>)
             (snd (FullPerfChart example_utils example_setCursor example_props chart_mount))))"
    by simp
  have theme:
    "FullPerfChart example_utils example_setCursor (example_props\<lparr>isDarkMode := False\<rparr>)
       (snd (FullPerfChart example_utils example_setCursor example_props chart_mount)) =
     (fst (FullPerfChart example_utils example_setCursor (example_props\<lparr>isDarkMode := False\<rparr>)
             (snd (FullPerfChart example_utils example_setCursor example_props chart_mount))),
      snd (FullPerfChart example_utils example_setCursor (example_props\<lparr>isDarkMode := False\<rparr>)
             (snd (FullPerfChart example_utils example_setCursor example_props chart_mount))))"
    by simp
  note a = processedData_stable[OF first resize]
  note b = processedData_stable[OF first theme]
  from a same have 1: "pass_processedData
       (fst (FullPerfChart example_utils (\<lambda>c. None) (example_props\<lparr>width := Num 1024\<rparr>)
               (snd (FullPerfChart example_utils example_setCursor example_props chart_mount)))) =
     pass_processedData
       (fst (FullPerfChart example_utils example_setCursor example_props chart_mount))"
    and 2: "\<not> pass_recomputed
       (fst (FullPerfChart example_utils (\<lambda>c. None) (example_props\<lparr>width := Num 1024\<rparr>)
               (snd (FullPerfChart example_utils example_setCursor example_props chart_mount))))"
    by blast+
  from b diff have 3: "pass_recomputed
       (fst (FullPerfChart example_utils example_setCursor (example_props\<lparr>isDarkMode := False\<rparr>)
               (snd (FullPerfChart example_utils example_setCursor example_props chart_mount))))"
    by blast
  from same diff 1 2 3 show ?thesis by blast
qed

subsection \<open>Selection and requests\<close>

lemma card_commit_deps: "mutate_deps (card_commit s) = Some (selectedThread (card_commit s))"
  by (simp add: card_commit_def mutate_def run_fetcher_def)

lemma card_commit_thread: "selectedThread (card_commit s) = selectedThread s"
  by (simp add: card_commit_def mutate_def run_fetcher_def)

lemma card_run_snoc: "card_run (es @ [e]) = card_step (card_run es) e"
  by (simp add: card_run_def)

text \<open>After any events, the effect has run with the thread that is selected.\<close>

lemma card_run_deps: "mutate_deps (card_run es) = Some (selectedThread (card_run es))"
proof (induction es rule: rev_induct)
  case Nil
  show ?case by (simp add: card_run_def card_mounted_def card_commit_deps)
next
  case (snoc e es)
  show ?case
  proof (cases e)
    case Revalidate
    with snoc show ?thesis by (simp add: card_run_snoc run_fetcher_def)
  qed (simp_all add: card_run_snoc card_commit_deps)
qed

lemma ValueChange_requests:
  assumes "mutate_deps s = Some (selectedThread s)"
  shows "requests (card_step s (ValueChange v)) =
           (if v = selectedThread s then requests s else requests s @ [chartApi_request v])"
  using assms by (simp add: card_commit_def mutate_def run_fetcher_def)

lemma example_run:
  "selectedThread (card_run [ValueChange ''svSync'', Revalidate]) = ''svSync''"
  "requests (card_run [ValueChange ''svSync'', Revalidate]) =
     [chartApi_request ''svMain'', chartApi_request ''svSync'', chartApi_request ''svSync'']"
  by (simp_all add: card_run_def card_mounted_def card_initial_def card_commit_def mutate_def
        run_fetcher_def)

text \<open>
  C4, as stated, fails: selecting the thread that is already selected (\<open>svMain\<close>
  right after mount) changes no state, the effect does not run and no request is
  issued.
\<close>

theorem reselect_no_refetch:
  "possible (ValueChange ''svMain'' :: nat card_event)
   \<and> selectedThread (card_mounted :: nat card_state) = ''svMain''
   \<and> requests (card_step (card_mounted :: nat card_state) (ValueChange ''svMain'')) =
       requests (card_mounted :: nat card_state)"
  by (simp add: card_mounted_def card_commit_def card_initial_def mutate_def run_fetcher_def
        select_items_def)

text \<open>
  C4, amended. In a mounted card, after any events, selecting a thread other than the
  selected one issues exactly one more request, and that request carries the newly
  selected thread; selecting the thread that is already selected issues none. This
  holds for every value, so for each of \<open>svMain\<close>, \<open>svSync\<close> and \<open>svNetwork\<close>.
\<close>

theorem select_refetches_once:
  "(v \<noteq> selectedThread (card_run es) \<longrightarrow>
      requests (card_step (card_run es) (ValueChange v)) =
        requests (card_run es) @ [chartApi_request v]
      \<and> request_thread (chartApi_request v) = Some v
      \<and> selectedThread (card_step (card_run es) (ValueChange v)) = v)
   \<and> (v = selectedThread (card_run es) \<longrightarrow>
      requests (card_step (card_run es) (ValueChange v)) = requests (card_run es))"
proof -
  have "requests (card_step (card_run es) (ValueChange v)) =
          (if v = selectedThread (card_run es) then requests (card_run es)
           else requests (card_run es) @ [chartApi_request v])"
    by (rule ValueChange_requests[OF card_run_deps])
  moreover have "request_thread (chartApi_request v) = Some v"
    by (simp add: request_thread_def chartApi_request_def)
  moreover have "selectedThread (card_step (card_run es) (ValueChange v)) = v"
    by (simp add: card_commit_thread)
  ultimately show ?thesis by presburger
qed

theorem select_refetches_once_witness:
  "''svNetwork'' \<noteq> selectedThread (card_run [ValueChange ''svSync'', Revalidate] :: nat card_state)
   \<and> requests (card_step (card_run [ValueChange ''svSync'', Revalidate] :: nat card_state)
                 (ValueChange ''svNetwork'')) =
       [chartApi_request ''svMain'', chartApi_request ''svSync'', chartApi_request ''svSync'',
        chartApi_request ''svNetwork'']
   \<and> ''svSync'' = selectedThread (card_run [ValueChange ''svSync'', Revalidate] :: nat card_state)
   \<and> requests (card_step (card_run [ValueChange ''svSync'', Revalidate] :: nat card_state)
                 (ValueChange ''svSync'')) =
       [chartApi_request ''svMain'', chartApi_request ''svSync'', chartApi_request ''svSync'']"
proof -
  have n: "''svNetwork'' \<noteq>
      selectedThread (card_run [ValueChange ''svSync'', Revalidate] :: nat card_state)"
    and s: "''svSync'' =
      selectedThread (card_run [ValueChange ''svSync'', Revalidate] :: nat card_state)"
    by (simp_all add: example_run)
  from select_refetches_once[of "''svNetwork''" "[ValueChange ''svSync'', Revalidate]"] n
  have 1: "requests (card_step (card_run [ValueChange ''svSync'', Revalidate] :: nat card_state)
                 (ValueChange ''svNetwork'')) =
       requests (card_run [ValueChange ''svSync'', Revalidate] :: nat card_state) @
         [chartApi_request ''svNetwork'']"
    by blast
  from select_refetches_once[of "''svSync''" "[ValueChange ''svSync'', Revalidate]"] s
  have 2: "requests (card_step (card_run [ValueChange ''svSync'', Revalidate] :: nat card_state)
                 (ValueChange ''svSync'')) =
       requests (card_run [ValueChange ''svSync'', Revalidate] :: nat card_state)"
    by blast
  from n s 1 2 show ?thesis by (simp add: example_run)
qed

lemma card_commit_ok:
  assumes "selectedThread s \<in> set select_items" and "\<forall>r \<in> set (requests s). request_ok r"
  shows "\<forall>r \<in> set (requests (card_commit s)). request_ok r"
  using assms
  by (auto simp: card_commit_def mutate_def run_fetcher_def request_ok_def chartApi_request_def)

lemma run_fetcher_ok:
  assumes "selectedThread s \<in> set select_items" and "\<forall>r \<in> set (requests s). request_ok r"
  shows "\<forall>r \<in> set (requests (run_fetcher s)). request_ok r"
  using assms by (auto simp: run_fetcher_def request_ok_def chartApi_request_def)

lemma card_run_ok:
  assumes "\<forall>e \<in> set es. possible e"
  shows "selectedThread (card_run es) \<in> set select_items \<and>
         (\<forall>r \<in> set (requests (card_run es)). request_ok r)"
  using assms
proof (induction es rule: rev_induct)
  case Nil
  show ?case
    by (simp add: card_run_def card_mounted_def card_commit_def card_initial_def mutate_def
          run_fetcher_def select_items_def request_ok_def chartApi_request_def)
next
  case (snoc e es)
  then have ih: "selectedThread (card_run es) \<in> set select_items"
      "\<forall>r \<in> set (requests (card_run es)). request_ok r"
    and pe: "possible e" by simp_all
  show ?case
  proof (cases e)
    case (ValueChange v)
    with pe have v: "v \<in> set select_items" by simp
    have "selectedThread ((card_run es)\<lparr>selectedThread := v\<rparr>) \<in> set select_items"
      using v by simp
    moreover have "\<forall>r \<in> set (requests ((card_run es)\<lparr>selectedThread := v\<rparr>)). request_ok r"
      using ih by simp
    ultimately show ?thesis
      using card_commit_ok[of "(card_run es)\<lparr>selectedThread := v\<rparr>"] ValueChange
      by (simp add: card_run_snoc card_commit_thread)
  next
    case (DebouncedResize sz)
    then show ?thesis
      using card_commit_ok[of "(card_run es)\<lparr>chartSize := sz\<rparr>"] ih
      by (simp add: card_run_snoc card_commit_thread)
  next
    case (ThemeChange d)
    then show ?thesis
      using card_commit_ok[of "(card_run es)\<lparr>darkMode := d\<rparr>"] ih
      by (simp add: card_run_snoc card_commit_thread)
  next
    case Revalidate
    then show ?thesis
      using run_fetcher_ok[of "card_run es"] ih
      by (simp add: card_run_snoc) (simp add: run_fetcher_def)
  next
    case (SwrUpdate r)
    then show ?thesis
      using card_commit_ok[of "(card_run es)\<lparr>swrChartApiResp := r\<rparr>"] ih
      by (simp add: card_run_snoc card_commit_thread)
  qed
qed

text \<open>
  C6. The selected thread starts as \<open>svMain\<close>. After any events the select can
  produce, the selected thread is one of \<open>svMain\<close>, \<open>svSync\<close> and \<open>svNetwork\<close>, and
  every request issued so far is a \<open>GET\<close> of \<open>/perfChartData/:thread/\<close> whose only
  path parameter is the thread, with one of these three values.
\<close>

theorem requests_fixed_threads:
  "selectedThread card_initial = ''svMain''
   \<and> set select_items = {''svMain'', ''svSync'', ''svNetwork''}
   \<and> ((\<forall>e \<in> set es. possible e) \<longrightarrow>
        selectedThread (card_run es) \<in> set select_items \<and>
        (\<forall>r \<in> set (requests (card_run es)).
           http_method r = ''GET'' \<and> path r = ''/perfChartData/:thread/'' \<and>
           (\<exists>t \<in> set select_items.
              pathParams r = [(''thread'', t)] \<and> request_thread r = Some t)))"
proof (intro conjI impI)
  show "selectedThread card_initial = ''svMain''"
    by (simp add: card_initial_def)
  show "set select_items = {''svMain'', ''svSync'', ''svNetwork''}"
    by (simp add: select_items_def)
next
  assume p: "\<forall>e \<in> set es. possible e"
  from card_run_ok[OF p] show "selectedThread (card_run es) \<in> set select_items"
    by simp
  from card_run_ok[OF p] show
    "\<forall>r \<in> set (requests (card_run es)).
       http_method r = ''GET'' \<and> path r = ''/perfChartData/:thread/'' \<and>
       (\<exists>t \<in> set select_items. pathParams r = [(''thread'', t)] \<and> request_thread r = Some t)"
    by (auto simp: request_ok_def request_thread_def)
qed

theorem requests_fixed_threads_witness:
  "possible (ValueChange ''svSync'' :: nat card_event)
   \<and> possible (Revalidate :: nat card_event)
   \<and> selectedThread (card_run [ValueChange ''svSync'', Revalidate] :: nat card_state) \<in>
       set select_items
   \<and> http_method (last (requests (card_run [ValueChange ''svSync'', Revalidate] :: nat card_state))) =
       ''GET''
   \<and> request_thread
       (last (requests (card_run [ValueChange ''svSync'', Revalidate] :: nat card_state))) =
       Some ''svSync''"
proof -
  have p: "\<forall>e \<in> set [ValueChange ''svSync'', Revalidate :: nat card_event]. possible e"
    by (simp add: select_items_def)
  have l: "last (requests (card_run [ValueChange ''svSync'', Revalidate] :: nat card_state)) \<in>
      set (requests (card_run [ValueChange ''svSync'', Revalidate] :: nat card_state))"
    by (simp add: example_run)
  from requests_fixed_threads[of "[ValueChange ''svSync'', Revalidate :: nat card_event]"] p
  have t: "selectedThread (card_run [ValueChange ''svSync'', Revalidate] :: nat card_state) \<in>
       set select_items"
    and r: "\<forall>r \<in> set (requests (card_run [ValueChange ''svSync'', Revalidate] :: nat card_state)).
           http_method r = ''GET'' \<and> path r = ''/perfChartData/:thread/'' \<and>
           (\<exists>t \<in> set select_items.
              pathParams r = [(''thread'', t)] \<and> request_thread r = Some t)"
    by blast+
  from r l have m:
    "http_method (last (requests (card_run [ValueChange ''svSync'', Revalidate] :: nat card_state))) =
       ''GET''"
    by blast
  have q: "request_thread
       (last (requests (card_run [ValueChange ''svSync'', Revalidate] :: nat card_state))) =
       Some ''svSync''"
    by (simp add: example_run request_thread_def chartApi_request_def)
  from p t m q show ?thesis by simp
qed

end
